theory Spec2Isabelle
  imports Main
begin

section \<open>Party addresses for the UPS integrations (party.py)\<close>

text \<open>
  A shallow embedding of the \<^verbatim>\<open>Address\<close> class of \<^verbatim>\<open>party.py\<close>. Python values that may
  be \<^verbatim>\<open>None\<close> are options, every \<^verbatim>\<open>raise\<close> is the left injection of a sum, keyword
  dictionaries are maps from key to value, and the collaborators the methods reach through
  \<^verbatim>\<open>Pool\<close> and \<^verbatim>\<open>Transaction\<close> (the subdivision search, the company of the context) are
  explicit arguments.
\<close>

subsection \<open>Data model\<close>

text \<open>A value stored in a keyword dictionary: a string, or \<^verbatim>\<open>None\<close>.\<close>

datatype pyval = PyNone | PyStr string

type_synonym pydict = "string \<rightharpoonup> pyval"

datatype error = UserError string | AttributeError | TypeError

record country =
  country_code :: string

text \<open>A subdivision record of the store; \<^verbatim>\<open>code\<close> is the composite \<^verbatim>\<open>COUNTRY-REGION\<close> code.\<close>

record subdivision =
  subdivision_id :: nat
  subdivision_code :: string

record party_identifier =
  identifier_code :: string

text \<open>
  \<^verbatim>\<open>tax_exemption_number\<close> is read behind \<^verbatim>\<open>hasattr\<close>: the outer \<open>None\<close> is a party type
  without the attribute, \<open>Some None\<close> the attribute holding \<^verbatim>\<open>None\<close>.
\<close>

record party =
  party_name :: string
  phone :: "string option"
  fax :: "string option"
  email :: "string option"
  identifiers :: "party_identifier list"
  tax_exemption_number :: "string option option"

record address =
  name :: "string option"
  street :: "string option"
  streetbis :: "string option"
  city :: "string option"
  zip_code :: "string option"
  country :: "country option"
  subdivision :: "subdivision option"
  party :: "party option"

record carrier =
  ups_shipper_no :: "string option"

text \<open>One entry of \<^verbatim>\<open>response['suggestions']\<close>, and the response of the validation client.\<close>

record suggestion =
  sug_city :: string
  sug_state :: string

record response =
  valid :: bool
  suggestions :: "suggestion list"

text \<open>
  What \<^verbatim>\<open>_ups_address_validate\<close> returns: the constant \<^verbatim>\<open>True\<close>, or the list
  \<^verbatim>\<open>matches\<close> of unsaved addresses.
\<close>

datatype validate_result = ReturnTrue | ReturnMatches "address list"

subsection \<open>Python primitives\<close>

text \<open>Truth value of a string-or-\<^verbatim>\<open>None\<close>: \<^verbatim>\<open>None\<close> and \<^verbatim>\<open>''\<close> are false.\<close>

definition truthy :: "string option \<Rightarrow> bool" where
  "truthy s = (case s of None \<Rightarrow> False | Some x \<Rightarrow> x \<noteq> [])"

definition py :: "string option \<Rightarrow> pyval" where
  "py s = (case s of None \<Rightarrow> PyNone | Some x \<Rightarrow> PyStr x)"

text \<open>\<^verbatim>\<open>x or ''\<close> for a string-or-\<^verbatim>\<open>None\<close>.\<close>

definition or_empty :: "string option \<Rightarrow> string" where
  "or_empty s = (case s of None \<Rightarrow> [] | Some x \<Rightarrow> x)"

text \<open>\<^verbatim>\<open>digits_only_re.sub('', s)\<close> with \<^verbatim>\<open>digits_only_re = re.compile('\D+')\<close>.\<close>

definition digits_only_sub :: "string \<Rightarrow> string" where
  "digits_only_sub s = filter (\<lambda>c. c \<in> set ''0123456789'') s"

text \<open>
  \<^verbatim>\<open>str.upper\<close> is Python's own, with its Unicode tables (the upper case of a string
  can even be longer than the string). It is not defined here: the loop over the
  suggestions takes it as its argument \<open>upper\<close>, and every statement about the loop is
  made for an arbitrary \<open>upper\<close>.
\<close>

text \<open>
  \<^verbatim>\<open>raise_user_error("ups_field_missing", error_args=(a, b))\<close> with the message registered in
  \<^verbatim>\<open>__setup__\<close>: \<^verbatim>\<open>'%s is missing in %s.'\<close>.
\<close>

definition ups_field_missing :: "string \<Rightarrow> string \<Rightarrow> error" where
  "ups_field_missing a b = UserError (a @ '' is missing in '' @ b @ ''.'')"

text \<open>
  \<^verbatim>\<open>a == b\<close> on records of the store compares their ids; \<^verbatim>\<open>None == b\<close> is false.
\<close>

definition model_eq :: "subdivision option \<Rightarrow> subdivision \<Rightarrow> bool" where
  "model_eq a b = (case a of None \<Rightarrow> False | Some x \<Rightarrow> subdivision_id x = subdivision_id b)"

text \<open>\<^verbatim>\<open>not company_id\<close> for the value of \<^verbatim>\<open>Transaction().context.get('company')\<close>.\<close>

definition no_company :: "nat option \<Rightarrow> bool" where
  "no_company company_id = (case company_id of None \<Rightarrow> True | Some i \<Rightarrow> i = 0)"

subsection \<open>The address element of the shipping API\<close>

text \<open>
  \<^verbatim>\<open>_get_ups_address_xml\<close>: the three required-field checks in the order of the source,
  then the keyword dictionary handed to \<^verbatim>\<open>ShipmentConfirm.address_type\<close>.
\<close>

definition get_ups_address_xml :: "address \<Rightarrow> error + pydict" where
  "get_ups_address_xml self =
     (case country self of
        None \<Rightarrow> Inl (UserError ''Street, City and Country are required.'')
      | Some c \<Rightarrow>
          if \<not> (truthy (street self) \<and> truthy (city self)) then
            Inl (UserError ''Street, City and Country are required.'')
          else if country_code c \<in> set [''US'', ''CA''] \<and> subdivision self = None then
            Inl (UserError (''State is required for '' @ country_code c))
          else if country_code c \<in> set [''US'', ''CA'', ''PR''] \<and> \<not> truthy (zip_code self) then
            Inl (UserError (''ZIP is required for '' @ country_code c))
          else
            let vals = [''AddressLine1'' \<mapsto> PyStr (take 35 (the (street self))),
                        ''City'' \<mapsto> PyStr (take 30 (the (city self))),
                        ''CountryCode'' \<mapsto> PyStr (country_code c)];
                vals = (if truthy (streetbis self)
                        then vals(''AddressLine2'' \<mapsto> PyStr (take 35 (the (streetbis self))))
                        else vals);
                vals = (case subdivision self of
                          Some sd \<Rightarrow> vals(''StateProvinceCode'' \<mapsto> PyStr (drop 3 (subdivision_code sd)))
                        | None \<Rightarrow> vals);
                vals = (if truthy (zip_code self)
                        then vals(''PostalCode'' \<mapsto> PyStr (the (zip_code self)))
                        else vals)
            in Inr vals)"

subsection \<open>The three roles of the shipping API\<close>

text \<open>
  A role element is built by \<^verbatim>\<open>ShipmentConfirm.ship_from_type\<close>, \<^verbatim>\<open>ship_to_type\<close> or
  \<^verbatim>\<open>shipper_type\<close> from the address element and the keyword dictionary \<^verbatim>\<open>vals\<close>; the
  model returns the two dictionaries. \<open>company_id\<close> is the value of
  \<^verbatim>\<open>Transaction().context.get('company')\<close> and \<open>Company i\<close> the party of the company
  record \<^verbatim>\<open>Company(i)\<close>. The address element is an argument of the final call, so
  \<^verbatim>\<open>_get_ups_address_xml\<close> runs last.
\<close>

type_synonym role_payload = "pydict \<times> pydict"

text \<open>\<^verbatim>\<open>self.name or self.party.name\<close>.\<close>

definition name_or_party_name :: "address \<Rightarrow> party \<Rightarrow> string" where
  "name_or_party_name self p = (if truthy (name self) then the (name self) else party_name p)"

text \<open>\<^verbatim>\<open>company_party.identifiers and company_party.identifiers[0].code or ''\<close>.\<close>

definition company_tax_identification_number :: "party \<Rightarrow> string" where
  "company_tax_identification_number company_party =
     (case identifiers company_party of
        [] \<Rightarrow> []
      | i # _ \<Rightarrow> if identifier_code i \<noteq> [] then identifier_code i else [])"

text \<open>The optional \<^verbatim>\<open>FaxNumber\<close> and \<^verbatim>\<open>EMailAddress\<close> keys, set only for a true value.\<close>

definition with_fax_email :: "party \<Rightarrow> pydict \<Rightarrow> pydict" where
  "with_fax_email p vals =
     (let vals = (if truthy (fax p) then vals(''FaxNumber'' \<mapsto> PyStr (the (fax p))) else vals);
          vals = (if truthy (email p) then vals(''EMailAddress'' \<mapsto> PyStr (the (email p))) else vals)
      in vals)"

definition to_ups_from_address ::
  "nat option \<Rightarrow> (nat \<Rightarrow> party) \<Rightarrow> address \<Rightarrow> error + role_payload" where
  \<open>to_ups_from_address company_id Company self =
     (case party self of
        None \<Rightarrow> Inl AttributeError
      | Some p \<Rightarrow>
          if \<not> truthy (phone p) then
            Inl (ups_field_missing ''Phone no.'' ''"from address"'')
          else if no_company company_id then
            Inl (ups_field_missing ''Company'' ''context'')
          else
            let company_party = Company (the company_id);
                vals = [''CompanyName'' \<mapsto> PyStr (party_name company_party),
                        ''AttentionName'' \<mapsto> PyStr (name_or_party_name self p),
                        ''TaxIdentificationNumber'' \<mapsto>
                          PyStr (company_tax_identification_number company_party),
                        ''PhoneNumber'' \<mapsto> PyStr (digits_only_sub (the (phone p)))];
                vals = with_fax_email p vals
            in (case get_ups_address_xml self of
                  Inl e \<Rightarrow> Inl e
                | Inr addr \<Rightarrow> Inr (addr, vals)))\<close>

text \<open>
  The tax identification number of \<^verbatim>\<open>to_ups_to_address\<close>: the first identifier, else the
  \<^verbatim>\<open>tax_exemption_number\<close> attribute when the party has one and it is true, else \<^verbatim>\<open>''\<close>.
\<close>

definition tax_identification_number :: "party \<Rightarrow> string" where
  "tax_identification_number p =
     (case identifiers p of
        i # _ \<Rightarrow> identifier_code i
      | [] \<Rightarrow>
          (case tax_exemption_number p of
             Some t \<Rightarrow> if truthy t then the t else []
           | None \<Rightarrow> []))"

definition to_ups_to_address :: "address \<Rightarrow> error + role_payload" where
  "to_ups_to_address self =
     (case party self of
        None \<Rightarrow> Inl AttributeError
      | Some p \<Rightarrow>
          let vals = [''CompanyName'' \<mapsto> PyStr (name_or_party_name self p),
                      ''TaxIdentificationNumber'' \<mapsto> PyStr (tax_identification_number p),
                      ''AttentionName'' \<mapsto> PyStr (name_or_party_name self p)];
              vals = (if truthy (phone p)
                      then vals(''PhoneNumber'' \<mapsto> PyStr (digits_only_sub (the (phone p))))
                      else vals);
              vals = with_fax_email p vals
          in (case get_ups_address_xml self of
                Inl e \<Rightarrow> Inl e
              | Inr addr \<Rightarrow> Inr (addr, vals)))"

definition to_ups_shipper ::
  "nat option \<Rightarrow> (nat \<Rightarrow> party) \<Rightarrow> address \<Rightarrow> carrier \<Rightarrow> error + role_payload" where
  \<open>to_ups_shipper company_id Company self carrier =
     (case party self of
        None \<Rightarrow> Inl AttributeError
      | Some p \<Rightarrow>
          if \<not> truthy (phone p) then
            Inl (ups_field_missing ''Phone no.'' ''"Shipper Address"'')
          else if no_company company_id then
            Inl (ups_field_missing ''Company'' ''context'')
          else
            let company_party = Company (the company_id);
                vals = [''CompanyName'' \<mapsto> PyStr (party_name company_party),
                        ''TaxIdentificationNumber'' \<mapsto>
                          PyStr (company_tax_identification_number company_party),
                        ''Name'' \<mapsto> PyStr (name_or_party_name self p),
                        ''AttentionName'' \<mapsto> PyStr (name_or_party_name self p),
                        ''PhoneNumber'' \<mapsto> PyStr (digits_only_sub (the (phone p))),
                        ''ShipperNumber'' \<mapsto> py (ups_shipper_no carrier)];
                vals = with_fax_email p vals
            in (case get_ups_address_xml self of
                  Inl e \<Rightarrow> Inl e
                | Inr addr \<Rightarrow> Inr (addr, vals)))\<close>

subsection \<open>The dictionary of the desktop XML format\<close>

text \<open>
  \<^verbatim>\<open>to_worldship_address\<close>. \<^verbatim>\<open>self.country and self.country.code\<close> and
  \<^verbatim>\<open>self.subdivision and self.subdivision.code[3:]\<close> are \<^verbatim>\<open>None\<close> for a missing record;
  \<^verbatim>\<open>digits_only_re.sub\<close> raises \<^verbatim>\<open>TypeError\<close> on \<^verbatim>\<open>None\<close>.
\<close>

definition to_worldship_address ::
  "nat option \<Rightarrow> (nat \<Rightarrow> party) \<Rightarrow> address \<Rightarrow> error + pydict" where
  "to_worldship_address company_id Company self =
     (if no_company company_id then
        Inl (ups_field_missing ''Company'' ''context'')
      else
        let company_party = Company (the company_id) in
        (case party self of
           None \<Rightarrow> Inl AttributeError
         | Some p \<Rightarrow>
             (case phone p of
                None \<Rightarrow> Inl TypeError
              | Some ph \<Rightarrow>
                  Inr [''CompanyOrName'' \<mapsto> PyStr (party_name company_party),
                       ''Attention'' \<mapsto> PyStr (name_or_party_name self p),
                       ''Address1'' \<mapsto> PyStr (or_empty (street self)),
                       ''Address2'' \<mapsto> PyStr (or_empty (streetbis self)),
                       ''CountryTerritory'' \<mapsto>
                         (case country self of
                            None \<Rightarrow> PyNone
                          | Some c \<Rightarrow> PyStr (country_code c)),
                       ''PostalCode'' \<mapsto> PyStr (or_empty (zip_code self)),
                       ''CityOrTown'' \<mapsto> PyStr (or_empty (city self)),
                       ''StateProvinceCounty'' \<mapsto>
                         (case subdivision self of
                            None \<Rightarrow> PyNone
                          | Some sd \<Rightarrow> PyStr (drop 3 (subdivision_code sd))),
                       ''Telephone'' \<mapsto> PyStr (digits_only_sub ph)])))"

subsection \<open>Reconciling the suggestions of the validation client\<close>

text \<open>
  The loop of \<^verbatim>\<open>_ups_address_validate\<close> over \<^verbatim>\<open>response['suggestions']\<close>, with the list
  \<^verbatim>\<open>matches\<close> as accumulator. \<open>upper\<close> is \<^verbatim>\<open>str.upper\<close>; \<open>search code\<close> is
  \<^verbatim>\<open>Subdivision.search([('code', '=', code)])\<close>; unpacking a result that is not one record
  raises the \<^verbatim>\<open>ValueError\<close> that the loop catches. Reading \<^verbatim>\<open>self.country.code\<close> or
  \<^verbatim>\<open>self.city.upper()\<close> on \<^verbatim>\<open>None\<close> raises \<^verbatim>\<open>AttributeError\<close>, which nothing catches.
\<close>

fun suggestions_loop ::
  "(string \<Rightarrow> string) \<Rightarrow> (string \<Rightarrow> subdivision list) \<Rightarrow> address \<Rightarrow> suggestion list \<Rightarrow> address list
     \<Rightarrow> error + validate_result" where
  "suggestions_loop upper search self [] matches = Inr (ReturnMatches matches)"
| "suggestions_loop upper search self (a # rest) matches =
     (case country self of
        None \<Rightarrow> Inl AttributeError
      | Some c \<Rightarrow>
          (case search (country_code c @ ''-'' @ sug_state a) of
             [sd] \<Rightarrow>
               (case city self of
                  None \<Rightarrow> Inl AttributeError
                | Some cty \<Rightarrow>
                    if upper cty = upper (sug_city a) \<and> model_eq (subdivision self) sd then
                      Inr ReturnTrue
                    else
                      suggestions_loop upper search self rest
                        (matches @
                         [\<lparr>name = name self, street = street self, streetbis = streetbis self,
                           city = Some (sug_city a), zip_code = zip_code self,
                           country = country self, subdivision = Some sd, party = None\<rparr>]))
           | _ \<Rightarrow> suggestions_loop upper search self rest matches))"

text \<open>
  \<^verbatim>\<open>_ups_address_validate\<close> from the point where \<^verbatim>\<open>response\<close> is bound: the party
  configuration and the validation client before it are collaborators that only produce
  the response.
\<close>

definition ups_address_validate ::
  "(string \<Rightarrow> string) \<Rightarrow> (string \<Rightarrow> subdivision list) \<Rightarrow> address \<Rightarrow> response \<Rightarrow> error + validate_result" where
  "ups_address_validate upper search self response =
     (if valid response \<and> suggestions response = [] then Inr ReturnTrue
      else suggestions_loop upper search self (suggestions response) [])"

subsection \<open>Example records\<close>

definition example_party :: party where
  "example_party =
     \<lparr>party_name = ''Acme Books'', phone = Some ''+1 (512) 555-0100'', fax = Some [],
      email = Some ''orders@acme.example'', identifiers = [],
      tax_exemption_number = Some (Some ''EX-77'')\<rparr>"

definition example_Company :: "nat \<Rightarrow> party" where
  "example_Company i = example_party"

definition example_address :: address where
  "example_address =
     \<lparr>name = Some ''Jo Doe'', street = Some ''1 Main Street'', streetbis = None,
      city = Some ''austin'', zip_code = Some ''73301'',
      country = Some \<lparr>country_code = ''US''\<rparr>,
      subdivision = Some \<lparr>subdivision_id = 7, subdivision_code = ''US-TX''\<rparr>,
      party = Some example_party\<rparr>"

definition long_address :: address where
  "long_address =
     example_address\<lparr>street := Some ''1234567890123456789012345678901234567890'',
       city := Some ''12345678901234567890123456789012345678901234567890''\<rparr>"

definition french_address :: address where
  "french_address =
     example_address\<lparr>street := Some ''12 Rue de la Paix'', city := Some ''Lyon'',
       zip_code := Some ''69001'', country := Some \<lparr>country_code = ''FR''\<rparr>,
       subdivision := None\<rparr>"

definition example_carrier :: carrier where
  "example_carrier = \<lparr>ups_shipper_no = Some ''A1B2C3''\<rparr>"

text \<open>Reading a key of a result; a failed call has no keys.\<close>

definition value_at :: "error + pydict \<Rightarrow> string \<Rightarrow> pyval option" where
  "value_at r k = (case r of Inl e \<Rightarrow> None | Inr vals \<Rightarrow> vals k)"

definition role_value_at :: "error + role_payload \<Rightarrow> string \<Rightarrow> pyval option" where
  "role_value_at r k = (case r of Inl e \<Rightarrow> None | Inr (addr, vals) \<Rightarrow> vals k)"

text \<open>
  An \<open>upper\<close> for the examples: it agrees with \<^verbatim>\<open>str.upper\<close> on strings of ASCII
  characters.
\<close>

definition ascii_upper_char :: "char \<Rightarrow> char" where
  "ascii_upper_char c =
     (case map_of (zip ''abcdefghijklmnopqrstuvwxyz'' ''ABCDEFGHIJKLMNOPQRSTUVWXYZ'') c of
        Some u \<Rightarrow> u
      | None \<Rightarrow> c)"

definition ascii_upper :: "string \<Rightarrow> string" where
  "ascii_upper s = map ascii_upper_char s"

text \<open>
  An \<open>upper\<close> that also knows two letters outside ASCII, in their UTF-8 bytes: e with an
  acute accent (C3 A9) becomes its capital (C3 89), and the sharp s (C3 9F) becomes SS, as
  in \<^verbatim>\<open>str.upper\<close>.
\<close>

fun sample_unicode_upper :: "string \<Rightarrow> string" where
  "sample_unicode_upper (c # d # cs) =
     (if c = CHR 0xC3 \<and> d = CHR 0xA9 then CHR 0xC3 # CHR 0x89 # sample_unicode_upper cs
      else if c = CHR 0xC3 \<and> d = CHR 0x9F then ''SS'' @ sample_unicode_upper cs
      else ascii_upper_char c # sample_unicode_upper (d # cs))"
| "sample_unicode_upper cs = map ascii_upper_char cs"

definition montreal_address :: address where
  "montreal_address =
     example_address\<lparr>city := Some (''montr'' @ [CHR 0xC3, CHR 0xA9] @ ''al''),
       zip_code := Some ''H2Y 1C6'', country := Some \<lparr>country_code = ''CA''\<rparr>,
       subdivision := Some \<lparr>subdivision_id = 11, subdivision_code = ''CA-QC''\<rparr>\<rparr>"

definition quebec_search :: "string \<Rightarrow> subdivision list" where
  "quebec_search code =
     (if code = ''CA-QC'' then [\<lparr>subdivision_id = 11, subdivision_code = ''CA-QC''\<rparr>] else [])"

definition example_search :: "string \<Rightarrow> subdivision list" where
  "example_search code =
     (if code = ''US-TX'' then [\<lparr>subdivision_id = 7, subdivision_code = ''US-TX''\<rparr>]
      else if code = ''US-CA'' then [\<lparr>subdivision_id = 5, subdivision_code = ''US-CA''\<rparr>]
      else if code = ''US-XX'' then [\<lparr>subdivision_id = 8, subdivision_code = ''US-XX''\<rparr>,
                                     \<lparr>subdivision_id = 9, subdivision_code = ''US-XX''\<rparr>]
      else [])"

text \<open>The unsaved address built from \<^const>\<open>example_address\<close> for a suggested city.\<close>

definition candidate :: "string \<Rightarrow> subdivision \<Rightarrow> address" where
  "candidate cty sd =
     \<lparr>name = Some ''Jo Doe'', street = Some ''1 Main Street'', streetbis = None,
      city = Some cty, zip_code = Some ''73301'', country = Some \<lparr>country_code = ''US''\<rparr>,
      subdivision = Some sd, party = None\<rparr>"

section \<open>Properties\<close>

subsection \<open>What a successful call returns\<close>

lemma get_ups_address_xml_Inr:
  assumes "get_ups_address_xml self = Inr vals"
  obtains s cty c where "street self = Some s" "s \<noteq> []" "city self = Some cty" "cty \<noteq> []"
    "country self = Some c"
    "vals ''AddressLine1'' = Some (PyStr (take 35 s))"
    "vals ''City'' = Some (PyStr (take 30 cty))"
    "vals ''CountryCode'' = Some (PyStr (country_code c))"
    "vals ''StateProvinceCode'' =
       map_option (\<lambda>sd. PyStr (drop 3 (subdivision_code sd))) (subdivision self)"
    "vals ''FaxNumber'' = None"
  using assms
  by (auto simp: get_ups_address_xml_def Let_def truthy_def split: option.splits if_splits)

lemma to_worldship_address_Inr:
  assumes "to_worldship_address company_id Company self = Inr w"
  obtains p ph i where "party self = Some p" "phone p = Some ph" "company_id = Some i" "i \<noteq> 0"
    "w = [''CompanyOrName'' \<mapsto> PyStr (party_name (Company i)),
          ''Attention'' \<mapsto> PyStr (name_or_party_name self p),
          ''Address1'' \<mapsto> PyStr (or_empty (street self)),
          ''Address2'' \<mapsto> PyStr (or_empty (streetbis self)),
          ''CountryTerritory'' \<mapsto>
            (case country self of None \<Rightarrow> PyNone | Some c \<Rightarrow> PyStr (country_code c)),
          ''PostalCode'' \<mapsto> PyStr (or_empty (zip_code self)),
          ''CityOrTown'' \<mapsto> PyStr (or_empty (city self)),
          ''StateProvinceCounty'' \<mapsto>
            (case subdivision self of None \<Rightarrow> PyNone
             | Some sd \<Rightarrow> PyStr (drop 3 (subdivision_code sd))),
          ''Telephone'' \<mapsto> PyStr (digits_only_sub ph)]"
  using assms
  by (auto simp: to_worldship_address_def no_company_def Let_def split: option.splits if_splits)

lemma with_fax_email_other:
  "k \<noteq> ''FaxNumber'' \<Longrightarrow> k \<noteq> ''EMailAddress'' \<Longrightarrow> with_fax_email p vals k = vals k"
  by (simp add: with_fax_email_def Let_def)

lemma with_fax_email_fax:
  "with_fax_email p vals ''FaxNumber'' =
     (if truthy (fax p) then Some (PyStr (the (fax p))) else vals ''FaxNumber'')"
  by (simp add: with_fax_email_def Let_def)

lemma to_ups_from_address_Inr:
  assumes "to_ups_from_address company_id Company self = Inr (addr, vals)"
  obtains p ph i where "party self = Some p" "phone p = Some ph" "ph \<noteq> []"
    "company_id = Some i" "i \<noteq> 0" "get_ups_address_xml self = Inr addr"
    "vals = with_fax_email p
       [''CompanyName'' \<mapsto> PyStr (party_name (Company i)),
        ''AttentionName'' \<mapsto> PyStr (name_or_party_name self p),
        ''TaxIdentificationNumber'' \<mapsto> PyStr (company_tax_identification_number (Company i)),
        ''PhoneNumber'' \<mapsto> PyStr (digits_only_sub ph)]"
  using assms
  by (auto simp: to_ups_from_address_def no_company_def truthy_def Let_def
      split: option.splits if_splits sum.splits)

lemma to_ups_shipper_Inr:
  assumes "to_ups_shipper company_id Company self carrier = Inr (addr, vals)"
  obtains p ph i where "party self = Some p" "phone p = Some ph" "ph \<noteq> []"
    "company_id = Some i" "i \<noteq> 0" "get_ups_address_xml self = Inr addr"
    "vals = with_fax_email p
       [''CompanyName'' \<mapsto> PyStr (party_name (Company i)),
        ''TaxIdentificationNumber'' \<mapsto> PyStr (company_tax_identification_number (Company i)),
        ''Name'' \<mapsto> PyStr (name_or_party_name self p),
        ''AttentionName'' \<mapsto> PyStr (name_or_party_name self p),
        ''PhoneNumber'' \<mapsto> PyStr (digits_only_sub ph),
        ''ShipperNumber'' \<mapsto> py (ups_shipper_no carrier)]"
  using assms
  by (auto simp: to_ups_shipper_def no_company_def truthy_def Let_def
      split: option.splits if_splits sum.splits)

lemma to_ups_to_address_Inr:
  assumes "to_ups_to_address self = Inr (addr, vals)"
  obtains p where "party self = Some p" "get_ups_address_xml self = Inr addr"
    "vals = with_fax_email p
       (let vals = [''CompanyName'' \<mapsto> PyStr (name_or_party_name self p),
                    ''TaxIdentificationNumber'' \<mapsto> PyStr (tax_identification_number p),
                    ''AttentionName'' \<mapsto> PyStr (name_or_party_name self p)]
        in if truthy (phone p)
           then vals(''PhoneNumber'' \<mapsto> PyStr (digits_only_sub (the (phone p))))
           else vals)"
  using assms
  by (auto simp: to_ups_to_address_def Let_def split: option.splits if_splits sum.splits)

subsection \<open>Required fields\<close>

text \<open>
  C4. \<^verbatim>\<open>_get_ups_address_xml\<close> fails with "Street, City and Country are required." as soon
  as the street, the city or the country is empty, whatever the other fields hold. With
  the three present, a country code US or CA without subdivision fails with the state
  error, also when the postal code is missing too; past that check, a country code US, CA
  or PR without postal code fails with the ZIP error; any other country code raises nothing.
\<close>

theorem required_field_check:
  "(\<not> truthy (street self) \<or> \<not> truthy (city self) \<or> country self = None \<longrightarrow>
      get_ups_address_xml self = Inl (UserError ''Street, City and Country are required.''))
   \<and> (truthy (street self) \<and> truthy (city self) \<and> country self = Some c \<longrightarrow>
        (country_code c \<in> {''US'', ''CA''} \<and> subdivision self = None \<longrightarrow>
           get_ups_address_xml self = Inl (UserError (''State is required for '' @ country_code c)))
      \<and> (\<not> (country_code c \<in> {''US'', ''CA''} \<and> subdivision self = None) \<and>
          country_code c \<in> {''US'', ''CA'', ''PR''} \<and> \<not> truthy (zip_code self) \<longrightarrow>
           get_ups_address_xml self = Inl (UserError (''ZIP is required for '' @ country_code c)))
      \<and> (country_code c \<notin> {''US'', ''CA'', ''PR''} \<longrightarrow>
           (\<exists>vals. get_ups_address_xml self = Inr vals)))"
  by (auto simp: get_ups_address_xml_def Let_def split: option.splits)

theorem required_field_check_witness:
  "get_ups_address_xml (example_address\<lparr>street := None\<rparr>) =
     Inl (UserError ''Street, City and Country are required.'')
   \<and> get_ups_address_xml (example_address\<lparr>subdivision := None, zip_code := None\<rparr>) =
     Inl (UserError ''State is required for US'')
   \<and> get_ups_address_xml (example_address\<lparr>zip_code := Some []\<rparr>) =
     Inl (UserError ''ZIP is required for US'')
   \<and> (\<exists>vals. get_ups_address_xml
        (example_address\<lparr>country := Some \<lparr>country_code = ''FR''\<rparr>, subdivision := None,
           zip_code := None\<rparr>) = Inr vals)"
  using required_field_check [of "example_address\<lparr>street := None\<rparr>" "\<lparr>country_code = ''US''\<rparr>"]
    required_field_check [of "example_address\<lparr>subdivision := None, zip_code := None\<rparr>"
      "\<lparr>country_code = ''US''\<rparr>"]
    required_field_check [of "example_address\<lparr>zip_code := Some []\<rparr>" "\<lparr>country_code = ''US''\<rparr>"]
    required_field_check [of "example_address\<lparr>country := Some \<lparr>country_code = ''FR''\<rparr>,
      subdivision := None, zip_code := None\<rparr>" "\<lparr>country_code = ''FR''\<rparr>"]
  by (simp add: example_address_def truthy_def)

subsection \<open>Length limits\<close>

text \<open>
  C5, as the claim states it, fails on the desktop format: \<^verbatim>\<open>to_worldship_address\<close> emits a
  street of 40 characters and a city of 50 characters whole, for an address that passes the
  required-field checks.
\<close>

theorem worldship_not_truncated_counterexample:
  "\<not> isl (get_ups_address_xml long_address)
   \<and> value_at (to_worldship_address (Some 1) example_Company long_address) ''Address1'' =
       Some (PyStr ''1234567890123456789012345678901234567890'')
   \<and> length ''1234567890123456789012345678901234567890'' = 40
   \<and> value_at (to_worldship_address (Some 1) example_Company long_address) ''CityOrTown'' =
       Some (PyStr ''12345678901234567890123456789012345678901234567890'')
   \<and> length ''12345678901234567890123456789012345678901234567890'' = 50"
  by (simp add: value_at_def to_worldship_address_def get_ups_address_xml_def long_address_def
      example_address_def example_party_def example_Company_def no_company_def truthy_def
      or_empty_def Let_def)

text \<open>
  C5, amended. An address that passes the three required-field checks is never rejected for
  the length of a field: \<^verbatim>\<open>_get_ups_address_xml\<close> returns its dictionary, in which
  \<^verbatim>\<open>AddressLine1\<close> is the street cut to at most 35 characters and \<^verbatim>\<open>City\<close> the city cut
  to at most 30. The desktop dictionary, which is returned whenever the context has a
  company and the party a phone number, carries \<^verbatim>\<open>Address1\<close> and \<^verbatim>\<open>CityOrTown\<close> uncut.
\<close>

theorem truncation_in_address_element:
  "(street self = Some s \<and> s \<noteq> [] \<and> city self = Some cty \<and> cty \<noteq> [] \<and>
    country self = Some c \<and>
    \<not> (country_code c \<in> {''US'', ''CA''} \<and> subdivision self = None) \<and>
    \<not> (country_code c \<in> {''US'', ''CA'', ''PR''} \<and> \<not> truthy (zip_code self)) \<longrightarrow>
      (\<exists>vals. get_ups_address_xml self = Inr vals \<and>
         vals ''AddressLine1'' = Some (PyStr (take 35 s)) \<and>
         length (take 35 s) = min (length s) 35 \<and>
         vals ''City'' = Some (PyStr (take 30 cty)) \<and>
         length (take 30 cty) = min (length cty) 30))
   \<and> (get_ups_address_xml self = Inr vals' \<longrightarrow>
      (\<exists>s cty. street self = Some s \<and> city self = Some cty \<and>
         vals' ''AddressLine1'' = Some (PyStr (take 35 s)) \<and>
         length (take 35 s) = min (length s) 35 \<and>
         vals' ''City'' = Some (PyStr (take 30 cty)) \<and>
         length (take 30 cty) = min (length cty) 30))
   \<and> (company_id = Some n \<and> n \<noteq> 0 \<and> party self = Some p \<and> phone p = Some ph \<longrightarrow>
      (\<exists>w. to_worldship_address company_id Company self = Inr w \<and>
         w ''Address1'' = Some (PyStr (or_empty (street self))) \<and>
         w ''CityOrTown'' = Some (PyStr (or_empty (city self)))))
   \<and> (to_worldship_address company_id Company self = Inr w' \<longrightarrow>
        w' ''Address1'' = Some (PyStr (or_empty (street self))) \<and>
        w' ''CityOrTown'' = Some (PyStr (or_empty (city self))))"
proof (intro conjI impI)
  assume "street self = Some s \<and> s \<noteq> [] \<and> city self = Some cty \<and> cty \<noteq> [] \<and>
    country self = Some c \<and>
    \<not> (country_code c \<in> {''US'', ''CA''} \<and> subdivision self = None) \<and>
    \<not> (country_code c \<in> {''US'', ''CA'', ''PR''} \<and> \<not> truthy (zip_code self))"
  then show "\<exists>vals. get_ups_address_xml self = Inr vals \<and>
         vals ''AddressLine1'' = Some (PyStr (take 35 s)) \<and>
         length (take 35 s) = min (length s) 35 \<and>
         vals ''City'' = Some (PyStr (take 30 cty)) \<and>
         length (take 30 cty) = min (length cty) 30"
    by (auto simp: get_ups_address_xml_def Let_def truthy_def split: option.splits)
next
  assume "get_ups_address_xml self = Inr vals'"
  then show "\<exists>s cty. street self = Some s \<and> city self = Some cty \<and>
         vals' ''AddressLine1'' = Some (PyStr (take 35 s)) \<and>
         length (take 35 s) = min (length s) 35 \<and>
         vals' ''City'' = Some (PyStr (take 30 cty)) \<and>
         length (take 30 cty) = min (length cty) 30"
    by (elim get_ups_address_xml_Inr) simp
next
  assume "company_id = Some n \<and> n \<noteq> 0 \<and> party self = Some p \<and> phone p = Some ph"
  then show "\<exists>w. to_worldship_address company_id Company self = Inr w \<and>
         w ''Address1'' = Some (PyStr (or_empty (street self))) \<and>
         w ''CityOrTown'' = Some (PyStr (or_empty (city self)))"
    by (simp add: to_worldship_address_def no_company_def)
next
  assume w: "to_worldship_address company_id Company self = Inr w'"
  then show "w' ''Address1'' = Some (PyStr (or_empty (street self)))"
    by (elim to_worldship_address_Inr) simp
  from w show "w' ''CityOrTown'' = Some (PyStr (or_empty (city self)))"
    by (elim to_worldship_address_Inr) simp
qed

theorem truncation_in_address_element_witness:
  "(\<exists>vals. get_ups_address_xml long_address = Inr vals \<and>
      vals ''AddressLine1'' = Some (PyStr ''12345678901234567890123456789012345'') \<and>
      length ''12345678901234567890123456789012345'' = 35 \<and>
      vals ''City'' = Some (PyStr ''123456789012345678901234567890'') \<and>
      length ''123456789012345678901234567890'' = 30)
   \<and> (\<exists>w. to_worldship_address (Some 1) example_Company long_address = Inr w \<and>
      w ''Address1'' = Some (PyStr ''1234567890123456789012345678901234567890'') \<and>
      w ''CityOrTown'' = Some (PyStr ''12345678901234567890123456789012345678901234567890''))"
proof -
  have h1: "street long_address = Some ''1234567890123456789012345678901234567890'' \<and>
    ''1234567890123456789012345678901234567890'' \<noteq> [] \<and>
    city long_address = Some ''12345678901234567890123456789012345678901234567890'' \<and>
    ''12345678901234567890123456789012345678901234567890'' \<noteq> [] \<and>
    country long_address = Some \<lparr>country_code = ''US''\<rparr> \<and>
    \<not> (country_code \<lparr>country_code = ''US''\<rparr> \<in> {''US'', ''CA''} \<and>
       subdivision long_address = None) \<and>
    \<not> (country_code \<lparr>country_code = ''US''\<rparr> \<in> {''US'', ''CA'', ''PR''} \<and>
       \<not> truthy (zip_code long_address))"
    by (simp add: long_address_def example_address_def truthy_def)
  have h2: "Some (1::nat) = Some 1 \<and> (1::nat) \<noteq> 0 \<and> party long_address = Some example_party \<and>
    phone example_party = Some ''+1 (512) 555-0100''"
    by (simp add: long_address_def example_address_def example_party_def)
  from truncation_in_address_element [THEN conjunct1, rule_format, OF h1]
  have e1: "\<exists>vals. get_ups_address_xml long_address = Inr vals \<and>
      vals ''AddressLine1'' = Some (PyStr ''12345678901234567890123456789012345'') \<and>
      length ''12345678901234567890123456789012345'' = 35 \<and>
      vals ''City'' = Some (PyStr ''123456789012345678901234567890'') \<and>
      length ''123456789012345678901234567890'' = 30"
    by simp
  from truncation_in_address_element [THEN conjunct2, THEN conjunct2, THEN conjunct1,
      rule_format, OF h2, of example_Company]
  have e2: "\<exists>w. to_worldship_address (Some 1) example_Company long_address = Inr w \<and>
      w ''Address1'' = Some (PyStr ''1234567890123456789012345678901234567890'') \<and>
      w ''CityOrTown'' = Some (PyStr ''12345678901234567890123456789012345678901234567890'')"
    by (simp add: long_address_def example_address_def or_empty_def)
  show ?thesis
    by (rule conjI [OF e1 e2])
qed

subsection \<open>Optional keys\<close>

text \<open>
  With an empty fax number no dictionary of the three roles has the key \<^verbatim>\<open>FaxNumber\<close>. The
  desktop dictionary always has its nine keys, with the empty string for an empty street,
  second street line, postal code or city.
\<close>

lemma optional_keys_by_format:
  "(party self = Some p \<and> \<not> truthy (fax p) \<longrightarrow>
      (to_ups_from_address company_id Company self = Inr (addr1, vals1) \<longrightarrow>
         vals1 ''FaxNumber'' = None \<and> addr1 ''FaxNumber'' = None)
      \<and> (to_ups_to_address self = Inr (addr2, vals2) \<longrightarrow>
         vals2 ''FaxNumber'' = None \<and> addr2 ''FaxNumber'' = None)
      \<and> (to_ups_shipper company_id Company self carrier = Inr (addr3, vals3) \<longrightarrow>
         vals3 ''FaxNumber'' = None \<and> addr3 ''FaxNumber'' = None))
   \<and> (to_worldship_address company_id Company self = Inr w \<longrightarrow>
        dom w = {''CompanyOrName'', ''Attention'', ''Address1'', ''Address2'',
                 ''CountryTerritory'', ''PostalCode'', ''CityOrTown'',
                 ''StateProvinceCounty'', ''Telephone''}
        \<and> (\<not> truthy (street self) \<longrightarrow> w ''Address1'' = Some (PyStr []))
        \<and> (\<not> truthy (streetbis self) \<longrightarrow> w ''Address2'' = Some (PyStr []))
        \<and> (\<not> truthy (zip_code self) \<longrightarrow> w ''PostalCode'' = Some (PyStr []))
        \<and> (\<not> truthy (city self) \<longrightarrow> w ''CityOrTown'' = Some (PyStr [])))"
proof (intro conjI impI; (elim conjE)?)
  assume p: "party self = Some p" "\<not> truthy (fax p)"
  {
    assume r: "to_ups_from_address company_id Company self = Inr (addr1, vals1)"
    from r p show "vals1 ''FaxNumber'' = None"
      by (elim to_ups_from_address_Inr) (simp add: with_fax_email_fax)
    from r show "addr1 ''FaxNumber'' = None"
      by (elim to_ups_from_address_Inr get_ups_address_xml_Inr)
  }
  {
    assume r: "to_ups_to_address self = Inr (addr2, vals2)"
    from r p show "vals2 ''FaxNumber'' = None"
      by (elim to_ups_to_address_Inr) (simp add: with_fax_email_fax Let_def)
    from r show "addr2 ''FaxNumber'' = None"
      by (elim to_ups_to_address_Inr get_ups_address_xml_Inr)
  }
  {
    assume r: "to_ups_shipper company_id Company self carrier = Inr (addr3, vals3)"
    from r p show "vals3 ''FaxNumber'' = None"
      by (elim to_ups_shipper_Inr) (simp add: with_fax_email_fax)
    from r show "addr3 ''FaxNumber'' = None"
      by (elim to_ups_shipper_Inr get_ups_address_xml_Inr)
  }
next
  assume w: "to_worldship_address company_id Company self = Inr w"
  from w show "dom w = {''CompanyOrName'', ''Attention'', ''Address1'', ''Address2'',
                 ''CountryTerritory'', ''PostalCode'', ''CityOrTown'',
                 ''StateProvinceCounty'', ''Telephone''}"
    by (elim to_worldship_address_Inr) (simp add: insert_commute)
  {
    assume "\<not> truthy (street self)"
    with w show "w ''Address1'' = Some (PyStr [])"
      by (elim to_worldship_address_Inr) (simp add: or_empty_def truthy_def split: option.splits)
  }
  {
    assume "\<not> truthy (streetbis self)"
    with w show "w ''Address2'' = Some (PyStr [])"
      by (elim to_worldship_address_Inr) (simp add: or_empty_def truthy_def split: option.splits)
  }
  {
    assume "\<not> truthy (zip_code self)"
    with w show "w ''PostalCode'' = Some (PyStr [])"
      by (elim to_worldship_address_Inr) (simp add: or_empty_def truthy_def split: option.splits)
  }
  {
    assume "\<not> truthy (city self)"
    with w show "w ''CityOrTown'' = Some (PyStr [])"
      by (elim to_worldship_address_Inr) (simp add: or_empty_def truthy_def split: option.splits)
  }
qed

text \<open>
  C6. The desktop dictionary is to hold the empty string for every optional value that is
  missing. \<^verbatim>\<open>to_worldship_address\<close> does so for the four entries written with \<^verbatim>\<open>or ''\<close>, but
  not for the subdivision: for a French address without subdivision, which passes the
  required-field checks, the key \<^verbatim>\<open>StateProvinceCounty\<close> holds \<^verbatim>\<open>None\<close>, while the missing
  second street line of the same address is the empty string.
\<close>

theorem worldship_missing_subdivision_is_none:
  "\<not> isl (get_ups_address_xml french_address)
   \<and> subdivision french_address = None
   \<and> value_at (to_worldship_address (Some 1) example_Company french_address)
        ''StateProvinceCounty'' = Some PyNone
   \<and> PyNone \<noteq> PyStr []
   \<and> streetbis french_address = None
   \<and> value_at (to_worldship_address (Some 1) example_Company french_address)
        ''Address2'' = Some (PyStr [])"
  by (simp add: value_at_def to_worldship_address_def get_ups_address_xml_def french_address_def
      example_address_def example_party_def example_Company_def no_company_def truthy_def
      or_empty_def Let_def)

subsection \<open>Phone and company of the sending roles\<close>

text \<open>
  C7. In \<^verbatim>\<open>to_ups_from_address\<close> and \<^verbatim>\<open>to_ups_shipper\<close> an empty phone number of the
  party fails with the missing-field message naming "Phone no." and the role, whatever the
  context and the company store hold; with a phone number and no company in the context
  both fail with "Company is missing in context.". Either way the result is the error, not
  a payload.
\<close>

theorem phone_then_company_required:
  \<open>party self = Some p \<Longrightarrow>
   (\<not> truthy (phone p) \<longrightarrow>
      to_ups_from_address company_id Company self =
        Inl (UserError ''Phone no. is missing in "from address".'') \<and>
      to_ups_shipper company_id Company self carrier =
        Inl (UserError ''Phone no. is missing in "Shipper Address".''))
   \<and> (truthy (phone p) \<and> (company_id = None \<or> company_id = Some 0) \<longrightarrow>
      to_ups_from_address company_id Company self =
        Inl (UserError ''Company is missing in context.'') \<and>
      to_ups_shipper company_id Company self carrier =
        Inl (UserError ''Company is missing in context.''))\<close>
  by (auto simp: to_ups_from_address_def to_ups_shipper_def ups_field_missing_def no_company_def)

theorem phone_then_company_required_witness:
  \<open>to_ups_from_address (Some 1) example_Company (example_address\<lparr>party := Some (example_party\<lparr>phone := Some []\<rparr>)\<rparr>) =
     Inl (UserError ''Phone no. is missing in "from address".'')
   \<and> to_ups_shipper None example_Company
        (example_address\<lparr>party := Some (example_party\<lparr>phone := None\<rparr>)\<rparr>) example_carrier =
     Inl (UserError ''Phone no. is missing in "Shipper Address".'')
   \<and> to_ups_from_address None example_Company example_address =
     Inl (UserError ''Company is missing in context.'')
   \<and> to_ups_shipper (Some 0) example_Company example_address example_carrier =
     Inl (UserError ''Company is missing in context.'')\<close>
  using
    phone_then_company_required [of "example_address\<lparr>party := Some (example_party\<lparr>phone := Some []\<rparr>)\<rparr>"
      "example_party\<lparr>phone := Some []\<rparr>" "Some 1" example_Company example_carrier]
    phone_then_company_required [of "example_address\<lparr>party := Some (example_party\<lparr>phone := None\<rparr>)\<rparr>"
      "example_party\<lparr>phone := None\<rparr>" None example_Company example_carrier]
    phone_then_company_required [of example_address example_party None example_Company example_carrier]
    phone_then_company_required [of example_address example_party "Some 0" example_Company example_carrier]
  by (simp add: example_address_def example_party_def truthy_def)

subsection \<open>Tax identification number\<close>

text \<open>
  C8, as the claim states it, fails for the sending roles: a company party without
  identifiers and with a tax exemption number still gets the empty string.
\<close>

theorem company_tax_number_no_fallback_counterexample:
  "identifiers (example_Company 1) = []
   \<and> tax_exemption_number (example_Company 1) = Some (Some ''EX-77'')
   \<and> role_value_at (to_ups_from_address (Some 1) example_Company example_address)
        ''TaxIdentificationNumber'' = Some (PyStr [])
   \<and> role_value_at (to_ups_shipper (Some 1) example_Company example_address example_carrier)
        ''TaxIdentificationNumber'' = Some (PyStr [])"
  by (simp add: role_value_at_def to_ups_from_address_def to_ups_shipper_def
      get_ups_address_xml_def company_tax_identification_number_def with_fax_email_def
      example_address_def example_party_def example_Company_def no_company_def truthy_def Let_def)

text \<open>
  C8, amended. \<^verbatim>\<open>to_ups_to_address\<close> takes the code of the first identifier of the
  address's party, else the party's tax exemption number when the attribute exists and is
  not empty, else the empty string. \<^verbatim>\<open>to_ups_from_address\<close> and \<^verbatim>\<open>to_ups_shipper\<close> take the
  code of the first identifier of the company's party, else the empty string.
\<close>

theorem tax_identification_number_by_role:
  "(to_ups_to_address self = Inr (addr, vals) \<and> party self = Some p \<longrightarrow>
      vals ''TaxIdentificationNumber'' =
        Some (PyStr (case identifiers p of
                       i # _ \<Rightarrow> identifier_code i
                     | [] \<Rightarrow> (case tax_exemption_number p of
                                Some (Some t) \<Rightarrow> t
                              | _ \<Rightarrow> []))))
   \<and> (to_ups_from_address company_id Company self = Inr (addr1, vals1) \<and> company_id = Some n \<longrightarrow>
      vals1 ''TaxIdentificationNumber'' =
        Some (PyStr (case identifiers (Company n) of [] \<Rightarrow> [] | i # _ \<Rightarrow> identifier_code i)))
   \<and> (to_ups_shipper company_id Company self carrier = Inr (addr2, vals2) \<and> company_id = Some n \<longrightarrow>
      vals2 ''TaxIdentificationNumber'' =
        Some (PyStr (case identifiers (Company n) of [] \<Rightarrow> [] | i # _ \<Rightarrow> identifier_code i)))"
proof (intro conjI impI; elim conjE)
  assume "to_ups_to_address self = Inr (addr, vals)" "party self = Some p"
  then show "vals ''TaxIdentificationNumber'' =
        Some (PyStr (case identifiers p of
                       i # _ \<Rightarrow> identifier_code i
                     | [] \<Rightarrow> (case tax_exemption_number p of
                                Some (Some t) \<Rightarrow> t
                              | _ \<Rightarrow> [])))"
    by (elim to_ups_to_address_Inr)
      (simp add: with_fax_email_other Let_def tax_identification_number_def truthy_def
        split: list.splits option.splits)
next
  assume "to_ups_from_address company_id Company self = Inr (addr1, vals1)" "company_id = Some n"
  then show "vals1 ''TaxIdentificationNumber'' =
        Some (PyStr (case identifiers (Company n) of [] \<Rightarrow> [] | i # _ \<Rightarrow> identifier_code i))"
    by (elim to_ups_from_address_Inr)
      (simp add: with_fax_email_other company_tax_identification_number_def split: list.splits)
next
  assume "to_ups_shipper company_id Company self carrier = Inr (addr2, vals2)" "company_id = Some n"
  then show "vals2 ''TaxIdentificationNumber'' =
        Some (PyStr (case identifiers (Company n) of [] \<Rightarrow> [] | i # _ \<Rightarrow> identifier_code i))"
    by (elim to_ups_shipper_Inr)
      (simp add: with_fax_email_other company_tax_identification_number_def split: list.splits)
qed

theorem tax_identification_number_by_role_witness:
  "(\<exists>addr vals. to_ups_to_address example_address = Inr (addr, vals) \<and>
      vals ''TaxIdentificationNumber'' = Some (PyStr ''EX-77''))
   \<and> (\<exists>addr vals. to_ups_from_address (Some 1) example_Company example_address = Inr (addr, vals) \<and>
      vals ''TaxIdentificationNumber'' = Some (PyStr []))
   \<and> (\<exists>addr vals. to_ups_shipper (Some 1) example_Company example_address example_carrier =
        Inr (addr, vals) \<and>
      vals ''TaxIdentificationNumber'' = Some (PyStr []))"
proof -
  obtain a1 v1 where r1:
    "to_ups_from_address (Some 1) example_Company example_address = Inr (a1, v1)"
    by (simp add: to_ups_from_address_def get_ups_address_xml_def example_address_def
        example_party_def no_company_def truthy_def Let_def)
  obtain a2 v2 where r2: "to_ups_to_address example_address = Inr (a2, v2)"
    by (simp add: to_ups_to_address_def get_ups_address_xml_def example_address_def
        example_party_def truthy_def Let_def)
  obtain a3 v3 where r3:
    "to_ups_shipper (Some 1) example_Company example_address example_carrier = Inr (a3, v3)"
    by (simp add: to_ups_shipper_def get_ups_address_xml_def example_address_def
        example_party_def no_company_def truthy_def Let_def)
  have p: "party example_address = Some example_party"
    by (simp add: example_address_def)
  have f2: "v2 ''TaxIdentificationNumber'' = Some (PyStr ''EX-77'')"
    using tax_identification_number_by_role [THEN conjunct1, rule_format, OF conjI [OF r2 p]]
    by (simp add: example_party_def)
  have f1: "v1 ''TaxIdentificationNumber'' = Some (PyStr [])"
    using tax_identification_number_by_role [THEN conjunct2, THEN conjunct1, rule_format,
        OF conjI [OF r1 refl]]
    by (simp add: example_party_def example_Company_def)
  have f3: "v3 ''TaxIdentificationNumber'' = Some (PyStr [])"
    using tax_identification_number_by_role [THEN conjunct2, THEN conjunct2, rule_format,
        OF conjI [OF r3 refl]]
    by (simp add: example_party_def example_Company_def)
  have e2: "\<exists>addr vals. to_ups_to_address example_address = Inr (addr, vals) \<and>
      vals ''TaxIdentificationNumber'' = Some (PyStr ''EX-77'')"
    by (rule exI [of _ a2], rule exI [of _ v2]) (rule conjI [OF r2 f2])
  have e1: "\<exists>addr vals. to_ups_from_address (Some 1) example_Company example_address =
      Inr (addr, vals) \<and> vals ''TaxIdentificationNumber'' = Some (PyStr [])"
    by (rule exI [of _ a1], rule exI [of _ v1]) (rule conjI [OF r1 f1])
  have e3: "\<exists>addr vals. to_ups_shipper (Some 1) example_Company example_address example_carrier =
      Inr (addr, vals) \<and> vals ''TaxIdentificationNumber'' = Some (PyStr [])"
    by (rule exI [of _ a3], rule exI [of _ v3]) (rule conjI [OF r3 f3])
  show ?thesis
    by (rule conjI [OF e2 conjI [OF e1 e3]])
qed

subsection \<open>State code\<close>

text \<open>
  C9. The state is the subdivision's code without its first three characters. The address
  element of the shipping API has the key \<^verbatim>\<open>StateProvinceCode\<close> exactly when the address has
  a subdivision; the desktop dictionary carries the same value under
  \<^verbatim>\<open>StateProvinceCounty\<close>.
\<close>

theorem state_code_drops_prefix:
  "(get_ups_address_xml self = Inr vals \<longrightarrow>
      vals ''StateProvinceCode'' =
        (case subdivision self of
           None \<Rightarrow> None
         | Some sd \<Rightarrow> Some (PyStr (drop 3 (subdivision_code sd)))))
   \<and> (to_worldship_address company_id Company self = Inr w \<and> subdivision self = Some sd \<longrightarrow>
      w ''StateProvinceCounty'' = Some (PyStr (drop 3 (subdivision_code sd))))"
proof (intro conjI impI; (elim conjE)?)
  assume "get_ups_address_xml self = Inr vals"
  then show "vals ''StateProvinceCode'' =
        (case subdivision self of
           None \<Rightarrow> None
         | Some sd \<Rightarrow> Some (PyStr (drop 3 (subdivision_code sd))))"
    by (elim get_ups_address_xml_Inr) (simp split: option.splits)
next
  assume "to_worldship_address company_id Company self = Inr w" "subdivision self = Some sd"
  then show "w ''StateProvinceCounty'' = Some (PyStr (drop 3 (subdivision_code sd)))"
    by (elim to_worldship_address_Inr) simp
qed

theorem state_code_drops_prefix_witness:
  "(\<exists>vals. get_ups_address_xml example_address = Inr vals \<and>
      vals ''StateProvinceCode'' = Some (PyStr ''TX''))
   \<and> (\<exists>vals. get_ups_address_xml
         (example_address\<lparr>country := Some \<lparr>country_code = ''FR''\<rparr>, subdivision := None\<rparr>) =
        Inr vals \<and> vals ''StateProvinceCode'' = None)
   \<and> (\<exists>w. to_worldship_address (Some 1) example_Company example_address = Inr w \<and>
      w ''StateProvinceCounty'' = Some (PyStr ''TX''))"
proof -
  let ?fr = "example_address\<lparr>country := Some \<lparr>country_code = ''FR''\<rparr>, subdivision := None\<rparr>"
  obtain v1 where r1: "get_ups_address_xml example_address = Inr v1"
    by (simp add: get_ups_address_xml_def example_address_def truthy_def Let_def)
  obtain v2 where r2: "get_ups_address_xml ?fr = Inr v2"
    by (simp add: get_ups_address_xml_def example_address_def truthy_def Let_def)
  obtain w where r3: "to_worldship_address (Some 1) example_Company example_address = Inr w"
    by (simp add: to_worldship_address_def example_address_def example_party_def no_company_def)
  have s: "subdivision example_address = Some \<lparr>subdivision_id = 7, subdivision_code = ''US-TX''\<rparr>"
    by (simp add: example_address_def)
  have f1: "v1 ''StateProvinceCode'' = Some (PyStr ''TX'')"
    using state_code_drops_prefix [THEN conjunct1, rule_format, OF r1] by (simp add: s)
  have f2: "v2 ''StateProvinceCode'' = None"
    using state_code_drops_prefix [THEN conjunct1, rule_format, OF r2] by simp
  have f3: "w ''StateProvinceCounty'' = Some (PyStr ''TX'')"
    using state_code_drops_prefix [THEN conjunct2, rule_format, OF conjI [OF r3 s]] by simp
  have e1: "\<exists>vals. get_ups_address_xml example_address = Inr vals \<and>
      vals ''StateProvinceCode'' = Some (PyStr ''TX'')"
    by (rule exI [of _ v1]) (rule conjI [OF r1 f1])
  have e2: "\<exists>vals. get_ups_address_xml ?fr = Inr vals \<and> vals ''StateProvinceCode'' = None"
    by (rule exI [of _ v2]) (rule conjI [OF r2 f2])
  have e3: "\<exists>w. to_worldship_address (Some 1) example_Company example_address = Inr w \<and>
      w ''StateProvinceCounty'' = Some (PyStr ''TX'')"
    by (rule exI [of _ w]) (rule conjI [OF r3 f3])
  show ?thesis
    by (rule conjI [OF e1 conjI [OF e2 e3]])
qed

subsection \<open>Phone of the receiving role\<close>

text \<open>
  C10. \<^verbatim>\<open>to_ups_to_address\<close> fails only where \<^verbatim>\<open>_get_ups_address_xml\<close> fails, with the
  same error; otherwise it returns a payload in which \<^verbatim>\<open>PhoneNumber\<close> is absent for an empty
  phone number and holds the digits of the phone number otherwise.
\<close>

theorem ship_to_phone_optional:
  "party self = Some p \<Longrightarrow>
   (get_ups_address_xml self = Inl e \<longrightarrow> to_ups_to_address self = Inl e)
   \<and> (get_ups_address_xml self = Inr addr \<longrightarrow>
        (\<exists>vals. to_ups_to_address self = Inr (addr, vals) \<and>
           (\<not> truthy (phone p) \<longrightarrow> vals ''PhoneNumber'' = None) \<and>
           (\<forall>ph. phone p = Some ph \<and> ph \<noteq> [] \<longrightarrow>
              vals ''PhoneNumber'' =
                Some (PyStr (filter (\<lambda>c. c \<in> set ''0123456789'') ph)))))"
  by (auto simp: to_ups_to_address_def Let_def with_fax_email_other digits_only_sub_def
      truthy_def)

theorem ship_to_phone_optional_witness:
  "(\<exists>addr vals. to_ups_to_address (example_address\<lparr>party := Some (example_party\<lparr>phone := Some []\<rparr>)\<rparr>) =
        Inr (addr, vals) \<and> vals ''PhoneNumber'' = None)
   \<and> (\<exists>addr vals. to_ups_to_address example_address = Inr (addr, vals) \<and>
        vals ''PhoneNumber'' = Some (PyStr ''15125550100''))
   \<and> to_ups_to_address (example_address\<lparr>street := None\<rparr>) =
        Inl (UserError ''Street, City and Country are required.'')"
proof -
  let ?np = "example_party\<lparr>phone := Some []\<rparr>"
  let ?a = "example_address\<lparr>party := Some ?np\<rparr>"
  obtain a1 where r1: "get_ups_address_xml ?a = Inr a1"
    by (simp add: get_ups_address_xml_def example_address_def truthy_def Let_def)
  obtain a2 where r2: "get_ups_address_xml example_address = Inr a2"
    by (simp add: get_ups_address_xml_def example_address_def truthy_def Let_def)
  have r3: "get_ups_address_xml (example_address\<lparr>street := None\<rparr>) =
      Inl (UserError ''Street, City and Country are required.'')"
    by (simp add: get_ups_address_xml_def example_address_def truthy_def)
  have p1: "party ?a = Some ?np" by simp
  have p2: "party example_address = Some example_party" by (simp add: example_address_def)
  have p3: "party (example_address\<lparr>street := None\<rparr>) = Some example_party"
    by (simp add: example_address_def)
  from ship_to_phone_optional [OF p1, THEN conjunct2, rule_format, OF r1]
  have e1: "\<exists>addr vals. to_ups_to_address ?a = Inr (addr, vals) \<and> vals ''PhoneNumber'' = None"
    by (auto simp: truthy_def)
  from ship_to_phone_optional [OF p2, THEN conjunct2, rule_format, OF r2]
  have e2: "\<exists>addr vals. to_ups_to_address example_address = Inr (addr, vals) \<and>
        vals ''PhoneNumber'' = Some (PyStr ''15125550100'')"
    by (auto simp: example_party_def)
  note e3 = ship_to_phone_optional [OF p3, THEN conjunct1, rule_format, OF r3]
  show ?thesis
    by (rule conjI [OF e1 conjI [OF e2 e3]])
qed

subsection \<open>Reconciliation\<close>

lemma suggestions_loop_skip:
  "country self = Some c \<Longrightarrow>
   suggestions_loop upper search self sugs matches =
   suggestions_loop upper search self
     (filter (\<lambda>a. length (search (country_code c @ ''-'' @ sug_state a)) = 1) sugs) matches"
proof (induction sugs arbitrary: matches)
  case Nil
  then show ?case by simp
next
  case (Cons a sugs)
  then show ?case
    by (cases "search (country_code c @ ''-'' @ sug_state a)" rule: remdups_adj.cases)
      (simp_all split: option.splits)
qed

lemma suggestions_loop_unresolved:
  "country self = Some c \<Longrightarrow>
   \<forall>a\<in>set sugs. length (search (country_code c @ ''-'' @ sug_state a)) \<noteq> 1 \<Longrightarrow>
   suggestions_loop upper search self sugs matches = Inr (ReturnMatches matches)"
proof (induction sugs arbitrary: matches)
  case Nil
  then show ?case by simp
next
  case (Cons a sugs)
  then show ?case
    by (cases "search (country_code c @ ''-'' @ sug_state a)" rule: remdups_adj.cases) simp_all
qed

lemma suggestions_loop_no_country:
  "country self = None \<Longrightarrow> suggestions_loop upper search self sugs matches \<noteq> Inr ReturnTrue"
  by (cases sugs) simp_all

lemma suggestions_loop_True_iff:
  "country self = Some c \<Longrightarrow>
   suggestions_loop upper search self sugs matches = Inr ReturnTrue \<longleftrightarrow>
   (\<exists>a\<in>set sugs. \<exists>cty sd. city self = Some cty \<and>
      search (country_code c @ ''-'' @ sug_state a) = [sd] \<and>
      upper cty = upper (sug_city a) \<and> model_eq (subdivision self) sd)"
proof (induction sugs arbitrary: matches)
  case Nil
  then show ?case by simp
next
  case (Cons a sugs)
  show ?case
  proof (cases "search (country_code c @ ''-'' @ sug_state a)" rule: remdups_adj.cases)
    case 1
    with Cons show ?thesis by simp
  next
    case (2 sd)
    show ?thesis
    proof (cases "city self")
      case None
      with Cons.prems 2 show ?thesis by simp
    next
      case (Some cty)
      with Cons 2 show ?thesis by auto
    qed
  next
    case (3 x y zs)
    with Cons show ?thesis by simp
  qed
qed

lemma suggestions_loop_matches:
  "country self = Some c \<Longrightarrow>
   suggestions_loop upper search self sugs matches = Inr (ReturnMatches ms) \<Longrightarrow>
   ms = matches @
     map (\<lambda>a. \<lparr>name = name self, street = street self, streetbis = streetbis self,
               city = Some (sug_city a), zip_code = zip_code self, country = country self,
               subdivision = Some (hd (search (country_code c @ ''-'' @ sug_state a))),
               party = None\<rparr>)
       (filter (\<lambda>a. length (search (country_code c @ ''-'' @ sug_state a)) = 1) sugs)"
proof (induction sugs arbitrary: matches)
  case Nil
  then show ?case by simp
next
  case (Cons a sugs)
  show ?case
  proof (cases "search (country_code c @ ''-'' @ sug_state a)" rule: remdups_adj.cases)
    case 1
    with Cons show ?thesis by simp
  next
    case (2 sd)
    let ?m = "\<lparr>name = name self, street = street self, streetbis = streetbis self,
               city = Some (sug_city a), zip_code = zip_code self, country = country self,
               subdivision = Some sd, party = None\<rparr>"
    from Cons.prems 2
    have "suggestions_loop upper search self sugs (matches @ [?m]) = Inr (ReturnMatches ms)"
      by (simp split: option.splits if_splits)
    from Cons.IH [OF Cons.prems(1) this] 2 show ?thesis by simp
  next
    case (3 x y zs)
    with Cons show ?thesis by simp
  qed
qed

lemma suggestions_loop_total:
  "country self = Some c \<Longrightarrow> city self = Some cty \<Longrightarrow>
   suggestions_loop upper search self sugs matches = Inr ReturnTrue \<or>
   (\<exists>ms. suggestions_loop upper search self sugs matches = Inr (ReturnMatches ms))"
proof (induction sugs arbitrary: matches)
  case Nil
  then show ?case by simp
next
  case (Cons a sugs)
  then show ?case
    by (cases "search (country_code c @ ''-'' @ sug_state a)" rule: remdups_adj.cases) simp_all
qed

lemma suggestions_loop_candidates:
  assumes c: "country self = Some c"
    and r: "suggestions_loop upper search self sugs [] = Inr (ReturnMatches ms)"
  shows "list_all2
     (\<lambda>a m. \<exists>sd. search (country_code c @ ''-'' @ sug_state a) = [sd] \<and>
        m = \<lparr>name = name self, street = street self, streetbis = streetbis self,
             city = Some (sug_city a), zip_code = zip_code self, country = country self,
             subdivision = Some sd, party = None\<rparr>)
     (filter (\<lambda>a. length (search (country_code c @ ''-'' @ sug_state a)) = 1) sugs)
     ms"
  using suggestions_loop_matches [OF c r]
  by (auto simp: list_all2_map2 length_Suc_conv intro!: list_all2_same [THEN iffD2])

text \<open>
  C1. \<^verbatim>\<open>_ups_address_validate\<close> returns \<^verbatim>\<open>True\<close> exactly when the response is valid with
  no suggestion, or some suggestion resolves to one subdivision record, has a city equal to
  the city of the address after \<^verbatim>\<open>str.upper\<close> on both, and its subdivision is the one of
  the address. The loop returns at such a suggestion, whatever follows it and whatever was
  collected before. This holds for every \<open>upper\<close>, so for Python's own.
\<close>

theorem exact_verdict_iff:
  "(ups_address_validate upper search self response = Inr ReturnTrue \<longleftrightarrow>
      (valid response \<and> suggestions response = []) \<or>
      (\<exists>a\<in>set (suggestions response). \<exists>c cty sd.
          country self = Some c \<and> city self = Some cty \<and>
          search (country_code c @ ''-'' @ sug_state a) = [sd] \<and>
          upper cty = upper (sug_city a) \<and> model_eq (subdivision self) sd))
   \<and> (country self = Some c \<and> city self = Some cty \<and>
        search (country_code c @ ''-'' @ sug_state a) = [sd] \<and>
        upper cty = upper (sug_city a) \<and> model_eq (subdivision self) sd \<longrightarrow>
        suggestions_loop upper search self (a # rest) matches = Inr ReturnTrue)"
proof (intro conjI impI)
  show "ups_address_validate upper search self response = Inr ReturnTrue \<longleftrightarrow>
      (valid response \<and> suggestions response = []) \<or>
      (\<exists>a\<in>set (suggestions response). \<exists>c cty sd.
          country self = Some c \<and> city self = Some cty \<and>
          search (country_code c @ ''-'' @ sug_state a) = [sd] \<and>
          upper cty = upper (sug_city a) \<and> model_eq (subdivision self) sd)"
  proof (cases "country self")
    case None
    then show ?thesis
      by (simp add: ups_address_validate_def suggestions_loop_no_country)
  next
    case (Some c')
    then show ?thesis
      by (auto simp: ups_address_validate_def suggestions_loop_True_iff [OF Some])
  qed
next
  assume "country self = Some c \<and> city self = Some cty \<and>
        search (country_code c @ ''-'' @ sug_state a) = [sd] \<and>
        upper cty = upper (sug_city a) \<and> model_eq (subdivision self) sd"
  then show "suggestions_loop upper search self (a # rest) matches = Inr ReturnTrue"
    by simp
qed

theorem exact_verdict_iff_witness:
  "ups_address_validate ascii_upper example_search example_address
     \<lparr>valid = False, suggestions = [\<lparr>sug_city = ''Austin'', sug_state = ''TX''\<rparr>]\<rparr> = Inr ReturnTrue
   \<and> ups_address_validate ascii_upper example_search example_address
       \<lparr>valid = True, suggestions = []\<rparr> = Inr ReturnTrue
   \<and> ups_address_validate ascii_upper example_search example_address
       \<lparr>valid = True, suggestions = [\<lparr>sug_city = ''Houston'', sug_state = ''ZZ''\<rparr>]\<rparr> \<noteq> Inr ReturnTrue
   \<and> ups_address_validate ascii_upper example_search example_address
       \<lparr>valid = False, suggestions = [\<lparr>sug_city = ''Dallas'', sug_state = ''TX''\<rparr>]\<rparr> \<noteq> Inr ReturnTrue
   \<and> suggestions_loop ascii_upper example_search example_address
       [\<lparr>sug_city = ''AUSTIN'', sug_state = ''TX''\<rparr>, \<lparr>sug_city = ''Dallas'', sug_state = ''TX''\<rparr>] [] =
       Inr ReturnTrue
   \<and> ups_address_validate sample_unicode_upper quebec_search montreal_address
       \<lparr>valid = False,
        suggestions = [\<lparr>sug_city = ''MONTR'' @ [CHR 0xC3, CHR 0x89] @ ''AL'',
                         sug_state = ''QC''\<rparr>]\<rparr> = Inr ReturnTrue"
  using
    exact_verdict_iff [where upper = sample_unicode_upper and search = quebec_search
      and self = montreal_address
      and response = "\<lparr>valid = False,
        suggestions = [\<lparr>sug_city = ''MONTR'' @ [CHR 0xC3, CHR 0x89] @ ''AL'',
                         sug_state = ''QC''\<rparr>]\<rparr>", THEN conjunct1]
    exact_verdict_iff [where upper = ascii_upper and search = example_search
      and self = example_address
      and response = "\<lparr>valid = False, suggestions = [\<lparr>sug_city = ''Austin'', sug_state = ''TX''\<rparr>]\<rparr>", THEN conjunct1]
    exact_verdict_iff [where upper = ascii_upper and search = example_search
      and self = example_address and response = "\<lparr>valid = True, suggestions = []\<rparr>", THEN conjunct1]
    exact_verdict_iff [where upper = ascii_upper and search = example_search
      and self = example_address
      and response = "\<lparr>valid = True, suggestions = [\<lparr>sug_city = ''Houston'', sug_state = ''ZZ''\<rparr>]\<rparr>", THEN conjunct1]
    exact_verdict_iff [where upper = ascii_upper and search = example_search
      and self = example_address
      and response = "\<lparr>valid = False, suggestions = [\<lparr>sug_city = ''Dallas'', sug_state = ''TX''\<rparr>]\<rparr>", THEN conjunct1]
    exact_verdict_iff [where upper = ascii_upper and search = example_search
      and self = example_address and c = "\<lparr>country_code = ''US''\<rparr>" and cty = "''austin''"
      and a = "\<lparr>sug_city = ''AUSTIN'', sug_state = ''TX''\<rparr>"
      and sd = "\<lparr>subdivision_id = 7, subdivision_code = ''US-TX''\<rparr>"
      and rest = "[\<lparr>sug_city = ''Dallas'', sug_state = ''TX''\<rparr>]" and matches = "[]", THEN conjunct2]
  by (simp add: example_address_def example_search_def ascii_upper_def ascii_upper_char_def
      model_eq_def montreal_address_def quebec_search_def)

text \<open>
  C2. For an address with a country, a suggestion whose code finds no subdivision record,
  or more than one, leaves no trace: the loop gives the same result as on the list without
  those suggestions, and no error comes from them. The others are still processed: when
  the address has a city and the result is not \<^verbatim>\<open>True\<close>, the result is the list of matches
  with one address for every suggestion that finds exactly one record, in their order. When
  every suggestion is skipped (and the response is not the valid one without suggestions),
  the result is the empty list of matches, which is not \<^verbatim>\<open>True\<close>.
\<close>

theorem unresolved_suggestions_skipped:
  "country self = Some c \<Longrightarrow>
   suggestions_loop upper search self sugs matches =
     suggestions_loop upper search self
       (filter (\<lambda>a. length (search (country_code c @ ''-'' @ sug_state a)) = 1) sugs) matches
   \<and> (city self = Some cty \<and> ups_address_validate upper search self response \<noteq> Inr ReturnTrue \<longrightarrow>
        (\<exists>ms. ups_address_validate upper search self response = Inr (ReturnMatches ms) \<and>
           list_all2
           (\<lambda>a m. \<exists>sd. search (country_code c @ ''-'' @ sug_state a) = [sd] \<and>
              m = \<lparr>name = name self, street = street self, streetbis = streetbis self,
                   city = Some (sug_city a), zip_code = zip_code self, country = country self,
                   subdivision = Some sd, party = None\<rparr>)
           (filter (\<lambda>a. length (search (country_code c @ ''-'' @ sug_state a)) = 1) (suggestions response))
           ms))
   \<and> ((\<forall>a\<in>set (suggestions response).
          length (search (country_code c @ ''-'' @ sug_state a)) \<noteq> 1) \<and>
        \<not> (valid response \<and> suggestions response = []) \<longrightarrow>
        ups_address_validate upper search self response = Inr (ReturnMatches []))
   \<and> ReturnMatches [] \<noteq> ReturnTrue"
proof (intro conjI impI)
  assume c: "country self = Some c"
  from c show "suggestions_loop upper search self sugs matches =
     suggestions_loop upper search self
       (filter (\<lambda>a. length (search (country_code c @ ''-'' @ sug_state a)) = 1) sugs) matches"
    by (rule suggestions_loop_skip)
  show "ReturnMatches [] \<noteq> ReturnTrue" by simp
  {
    assume "(\<forall>a\<in>set (suggestions response).
          length (search (country_code c @ ''-'' @ sug_state a)) \<noteq> 1) \<and>
        \<not> (valid response \<and> suggestions response = [])"
    with c show "ups_address_validate upper search self response = Inr (ReturnMatches [])"
      by (simp add: ups_address_validate_def suggestions_loop_unresolved)
  }
  {
    assume h: "city self = Some cty \<and>
      ups_address_validate upper search self response \<noteq> Inr ReturnTrue"
    then have cty: "city self = Some cty"
      and n: "ups_address_validate upper search self response \<noteq> Inr ReturnTrue"
      by simp_all
    from n have e: "ups_address_validate upper search self response =
        suggestions_loop upper search self (suggestions response) []"
      by (simp add: ups_address_validate_def split: if_splits)
    with n suggestions_loop_total [OF c cty, of upper search "suggestions response" "[]"]
    obtain ms where
      m: "suggestions_loop upper search self (suggestions response) [] = Inr (ReturnMatches ms)"
      by auto
    from suggestions_loop_candidates [OF c m] e m
    show "\<exists>ms. ups_address_validate upper search self response = Inr (ReturnMatches ms) \<and>
           list_all2
           (\<lambda>a m. \<exists>sd. search (country_code c @ ''-'' @ sug_state a) = [sd] \<and>
              m = \<lparr>name = name self, street = street self, streetbis = streetbis self,
                   city = Some (sug_city a), zip_code = zip_code self, country = country self,
                   subdivision = Some sd, party = None\<rparr>)
           (filter (\<lambda>a. length (search (country_code c @ ''-'' @ sug_state a)) = 1) (suggestions response))
           ms"
      by auto
  }
qed

theorem unresolved_suggestions_skipped_witness:
  "suggestions_loop ascii_upper example_search example_address
     [\<lparr>sug_city = ''Houston'', sug_state = ''ZZ''\<rparr>, \<lparr>sug_city = ''Dallas'', sug_state = ''TX''\<rparr>,
      \<lparr>sug_city = ''Reno'', sug_state = ''XX''\<rparr>] [] =
   suggestions_loop ascii_upper example_search example_address
     [\<lparr>sug_city = ''Dallas'', sug_state = ''TX''\<rparr>] []
   \<and> ups_address_validate ascii_upper example_search example_address
       \<lparr>valid = False,
        suggestions = [\<lparr>sug_city = ''Houston'', sug_state = ''ZZ''\<rparr>,
                       \<lparr>sug_city = ''Dallas'', sug_state = ''TX''\<rparr>,
                       \<lparr>sug_city = ''Reno'', sug_state = ''XX''\<rparr>]\<rparr> =
     Inr (ReturnMatches [candidate ''Dallas'' \<lparr>subdivision_id = 7, subdivision_code = ''US-TX''\<rparr>])
   \<and> ups_address_validate ascii_upper example_search example_address
       \<lparr>valid = False, suggestions = [\<lparr>sug_city = ''Houston'', sug_state = ''ZZ''\<rparr>]\<rparr> =
     Inr (ReturnMatches [])
   \<and> ups_address_validate ascii_upper example_search example_address
       \<lparr>valid = True, suggestions = [\<lparr>sug_city = ''Reno'', sug_state = ''XX''\<rparr>]\<rparr> =
     Inr (ReturnMatches [])
   \<and> ReturnMatches [] \<noteq> ReturnTrue"
proof -
  let ?sugs = "[\<lparr>sug_city = ''Houston'', sug_state = ''ZZ''\<rparr>,
                \<lparr>sug_city = ''Dallas'', sug_state = ''TX''\<rparr>,
                \<lparr>sug_city = ''Reno'', sug_state = ''XX''\<rparr>]"
  have c: "country example_address = Some \<lparr>country_code = ''US''\<rparr>"
    by (simp add: example_address_def)
  have cty: "city example_address = Some ''austin''"
    by (simp add: example_address_def)
  have f: "filter (\<lambda>a. length (example_search (country_code \<lparr>country_code = ''US''\<rparr> @ ''-'' @ sug_state a)) = 1)
      ?sugs = [\<lparr>sug_city = ''Dallas'', sug_state = ''TX''\<rparr>]"
    by (simp add: example_search_def)
  have t1: "suggestions_loop ascii_upper example_search example_address ?sugs [] =
   suggestions_loop ascii_upper example_search example_address
     [\<lparr>sug_city = ''Dallas'', sug_state = ''TX''\<rparr>] []"
    using unresolved_suggestions_skipped [OF c, THEN conjunct1, of ascii_upper example_search
        ?sugs "[]"]
    by (simp only: f)
  have n: "ups_address_validate ascii_upper example_search example_address
       \<lparr>valid = False, suggestions = ?sugs\<rparr> \<noteq> Inr ReturnTrue"
    by (simp add: ups_address_validate_def example_address_def example_search_def
        ascii_upper_def ascii_upper_char_def)
  from unresolved_suggestions_skipped [OF c, THEN conjunct2, THEN conjunct1, rule_format,
      OF conjI [OF cty n]]
  obtain ms where
    r: "ups_address_validate ascii_upper example_search example_address
       \<lparr>valid = False, suggestions = ?sugs\<rparr> = Inr (ReturnMatches ms)"
    and l: "list_all2
     (\<lambda>a m. \<exists>sd. example_search (country_code \<lparr>country_code = ''US''\<rparr> @ ''-'' @ sug_state a) = [sd] \<and>
        m = \<lparr>name = name example_address, street = street example_address,
             streetbis = streetbis example_address,
             city = Some (sug_city a), zip_code = zip_code example_address,
             country = country example_address,
             subdivision = Some sd, party = None\<rparr>)
     (filter (\<lambda>a. length (example_search (country_code \<lparr>country_code = ''US''\<rparr> @ ''-'' @ sug_state a)) = 1)
        (suggestions \<lparr>valid = False, suggestions = ?sugs\<rparr>))
     ms"
    by blast
  from l have "ms = [candidate ''Dallas'' \<lparr>subdivision_id = 7, subdivision_code = ''US-TX''\<rparr>]"
    by (simp add: example_search_def example_address_def candidate_def list_all2_Cons1)
  with r have t2: "ups_address_validate ascii_upper example_search example_address
       \<lparr>valid = False, suggestions = ?sugs\<rparr> =
     Inr (ReturnMatches [candidate ''Dallas'' \<lparr>subdivision_id = 7, subdivision_code = ''US-TX''\<rparr>])"
    by simp
  have t3: "ups_address_validate ascii_upper example_search example_address
       \<lparr>valid = False, suggestions = [\<lparr>sug_city = ''Houston'', sug_state = ''ZZ''\<rparr>]\<rparr> =
     Inr (ReturnMatches [])"
    using unresolved_suggestions_skipped [OF c, THEN conjunct2, THEN conjunct2, THEN conjunct1,
        of "\<lparr>valid = False, suggestions = [\<lparr>sug_city = ''Houston'', sug_state = ''ZZ''\<rparr>]\<rparr>"
        example_search ascii_upper]
    by (simp add: example_search_def)
  have t4: "ups_address_validate ascii_upper example_search example_address
       \<lparr>valid = True, suggestions = [\<lparr>sug_city = ''Reno'', sug_state = ''XX''\<rparr>]\<rparr> =
     Inr (ReturnMatches [])"
    using unresolved_suggestions_skipped [OF c, THEN conjunct2, THEN conjunct2, THEN conjunct1,
        of "\<lparr>valid = True, suggestions = [\<lparr>sug_city = ''Reno'', sug_state = ''XX''\<rparr>]\<rparr>"
        example_search ascii_upper]
    by (simp add: example_search_def)
  note t5 = unresolved_suggestions_skipped [OF c, THEN conjunct2, THEN conjunct2, THEN conjunct2]
  show ?thesis
    by (rule conjI [OF t1 conjI [OF t2 conjI [OF t3 conjI [OF t4 t5]]]])
qed

text \<open>
  C3. When \<^verbatim>\<open>_ups_address_validate\<close> returns the list of matches, the list has one address
  for each suggestion that resolves to one subdivision record, in the order of the
  suggestions and with repetitions kept; each carries the name, the two street lines, the
  country and the postal code of the original address, the city of the suggestion and the
  subdivision record found.
\<close>

theorem candidates_in_order:
  "country self = Some c \<Longrightarrow>
   ups_address_validate upper search self response = Inr (ReturnMatches ms) \<Longrightarrow>
   list_all2
     (\<lambda>a m. \<exists>sd. search (country_code c @ ''-'' @ sug_state a) = [sd] \<and>
        m = \<lparr>name = name self, street = street self, streetbis = streetbis self,
             city = Some (sug_city a), zip_code = zip_code self, country = country self,
             subdivision = Some sd, party = None\<rparr>)
     (filter (\<lambda>a. length (search (country_code c @ ''-'' @ sug_state a)) = 1)
        (suggestions response))
     ms"
proof -
  assume c: "country self = Some c"
    and r: "ups_address_validate upper search self response = Inr (ReturnMatches ms)"
  from r have "suggestions_loop upper search self (suggestions response) [] = Inr (ReturnMatches ms)"
    by (simp add: ups_address_validate_def split: if_splits)
  from suggestions_loop_candidates [OF c this] show ?thesis .
qed

theorem candidates_in_order_witness:
  "ups_address_validate ascii_upper example_search example_address
     \<lparr>valid = False,
      suggestions = [\<lparr>sug_city = ''Dallas'', sug_state = ''TX''\<rparr>,
                     \<lparr>sug_city = ''Houston'', sug_state = ''ZZ''\<rparr>,
                     \<lparr>sug_city = ''Sacramento'', sug_state = ''CA''\<rparr>,
                     \<lparr>sug_city = ''Dallas'', sug_state = ''TX''\<rparr>]\<rparr> =
   Inr (ReturnMatches
     [candidate ''Dallas'' \<lparr>subdivision_id = 7, subdivision_code = ''US-TX''\<rparr>,
      candidate ''Sacramento'' \<lparr>subdivision_id = 5, subdivision_code = ''US-CA''\<rparr>,
      candidate ''Dallas'' \<lparr>subdivision_id = 7, subdivision_code = ''US-TX''\<rparr>])"
proof -
  let ?r = "\<lparr>valid = False,
      suggestions = [\<lparr>sug_city = ''Dallas'', sug_state = ''TX''\<rparr>,
                     \<lparr>sug_city = ''Houston'', sug_state = ''ZZ''\<rparr>,
                     \<lparr>sug_city = ''Sacramento'', sug_state = ''CA''\<rparr>,
                     \<lparr>sug_city = ''Dallas'', sug_state = ''TX''\<rparr>]\<rparr>"
  have c: "country example_address = Some \<lparr>country_code = ''US''\<rparr>"
    by (simp add: example_address_def)
  obtain ms where r: "ups_address_validate ascii_upper example_search example_address ?r = Inr (ReturnMatches ms)"
    by (simp add: ups_address_validate_def example_address_def example_search_def ascii_upper_def
        ascii_upper_char_def)
  from candidates_in_order [OF c r]
  have "ms = [candidate ''Dallas'' \<lparr>subdivision_id = 7, subdivision_code = ''US-TX''\<rparr>,
      candidate ''Sacramento'' \<lparr>subdivision_id = 5, subdivision_code = ''US-CA''\<rparr>,
      candidate ''Dallas'' \<lparr>subdivision_id = 7, subdivision_code = ''US-TX''\<rparr>]"
    by (simp add: example_search_def example_address_def candidate_def list_all2_Cons1)
  with r show ?thesis by simp
qed

end
